theory Spec2Isabelle
  imports
    Complex_Main
    "HOL-Library.Multiset"
    "HOL-Library.List_Lexorder"
    "HOL-Library.Char_ord"
    "HOL-Library.Product_Lexorder"
    "HOL-Library.Sublist"
    "HOL-Library.AList"
begin

section \<open>Data model\<close>

text \<open>
  The ledger is the \<^verbatim>\<open>Storico\<close> data frame of \<^verbatim>\<open>main.py\<close>: an ordered table whose
  rows carry the five columns written by \<^verbatim>\<open>update_storico\<close>. A data frame is a list of
  rows in index order. Python floats are read as real numbers (finite, not NaN), integers
  as \<open>int\<close>, a \<^verbatim>\<open>datetime\<close> as an integer time stamp. The column \<^verbatim>\<open>data_download\<close>
  may hold the missing value \<^verbatim>\<open>NaT\<close>, which \<^verbatim>\<open>compute_prev_giornata_date\<close> tests for
  with \<^verbatim>\<open>pd.isna\<close>; it is \<open>None\<close> here. Strings are lists of characters compared
  code point by code point, as Python compares them.
\<close>

type_synonym datetime = int

record row =
  giornata :: int
  data_download :: "datetime option"
  Squadra :: string
  squadra_norm :: string
  punteggio_totale :: real

type_synonym dataframe = "row list"

text \<open>The value stored per team by \<^verbatim>\<open>collect_current_scores\<close>:
  \<^verbatim>\<open>{"Squadra": ..., "Punti": ...}\<close>.\<close>

record score_obj =
  obj_Squadra :: string
  obj_Punti :: real

text \<open>
  A Python \<^verbatim>\<open>dict\<close> keeps its keys in insertion order, and \<^verbatim>\<open>update_storico\<close> appends
  rows in the order in which \<^verbatim>\<open>items()\<close> yields them: the snapshot is an association
  list. A dictionary holds each key once, which is \<open>distinct (map fst cs)\<close>.
\<close>

type_synonym scores = "(string \<times> score_obj) list"

record stats =
  added_changed :: nat
  added_new_prev :: nat
  skipped_unchanged :: nat
  no_change :: nat

section \<open>Data frame operations used by the reconciler\<close>

text \<open>
  \<^verbatim>\<open>df.sort_values(["squadra_norm", "giornata"])\<close>: with several columns pandas sorts
  through \<^verbatim>\<open>numpy.lexsort\<close>, a stable sort on the lexicographic key.
\<close>

definition sort_values_norm_giornata :: "dataframe \<Rightarrow> dataframe" where
  "sort_values_norm_giornata df = sort_key (\<lambda>r. (squadra_norm r, giornata r)) df"

text \<open>
  \<^verbatim>\<open>.groupby("squadra_norm").tail(1)\<close>: the last row of every group, the rows kept in
  the order of the frame.
\<close>

fun groupby_tail1 :: "dataframe \<Rightarrow> dataframe" where
  "groupby_tail1 [] = []"
| "groupby_tail1 (r # rs) =
     (if squadra_norm r \<in> squadra_norm ` set rs then groupby_tail1 rs
      else r # groupby_tail1 rs)"

text \<open>\<^verbatim>\<open>df_last\<close> of \<^verbatim>\<open>update_storico\<close>, indexed by \<^verbatim>\<open>squadra_norm\<close>.\<close>

definition df_last :: "dataframe \<Rightarrow> dataframe" where
  "df_last df_storico = groupby_tail1 (sort_values_norm_giornata df_storico)"

text \<open>
  \<^verbatim>\<open>norm in df_last.index\<close> and \<^verbatim>\<open>df_last.loc[norm, "punteggio_totale"]\<close>. The index
  holds every key once, and the source reads \<^verbatim>\<open>loc\<close> only at a key of the index, so the
  case \<open>None\<close> is never reached from \<^verbatim>\<open>update_storico\<close>.
\<close>

definition in_index :: "string \<Rightarrow> dataframe \<Rightarrow> bool" where
  "in_index nrm dl = (nrm \<in> squadra_norm ` set dl)"

definition loc_punteggio_totale :: "dataframe \<Rightarrow> string \<Rightarrow> real" where
  "loc_punteggio_totale dl nrm =
     (case find (\<lambda>r. squadra_norm r = nrm) dl of
        Some r \<Rightarrow> punteggio_totale r
      | None \<Rightarrow> 0)"

text \<open>\<^verbatim>\<open>int(df_storico["giornata"].max())\<close>, taken on a frame with at least one row.\<close>

definition last_giornata :: "dataframe \<Rightarrow> int" where
  "last_giornata df_storico = Max (set (map giornata df_storico))"

text \<open>
  \<^verbatim>\<open>compute_prev_giornata_date\<close>: the maximum of \<^verbatim>\<open>data_download\<close> over the rows of the
  given round, missing values skipped; the fallback when that maximum is missing, which
  is when no row of the round holds a time stamp.
\<close>

definition compute_prev_giornata_date :: "dataframe \<Rightarrow> int \<Rightarrow> datetime \<Rightarrow> datetime" where
  "compute_prev_giornata_date df_storico g fallback_dt =
     (case List.map_filter data_download (filter (\<lambda>r. giornata r = g) df_storico) of
        [] \<Rightarrow> fallback_dt
      | d # ds \<Rightarrow> Max (set (d # ds)))"

section \<open>The reconciler\<close>

text \<open>
  \<^verbatim>\<open>current_scores[norm]\<close>. The source reads it only at keys that \<^verbatim>\<open>items()\<close> has
  produced, where no \<^verbatim>\<open>KeyError\<close> is raised.
\<close>

definition getitem :: "scores \<Rightarrow> string \<Rightarrow> score_obj" where
  "getitem current_scores nrm = the (map_of current_scores nrm)"

definition mk_row :: "int \<Rightarrow> datetime \<Rightarrow> scores \<Rightarrow> string \<Rightarrow> row" where
  "mk_row g dt current_scores nrm =
     \<lparr>giornata = g, data_download = Some dt,
      Squadra = obj_Squadra (getitem current_scores nrm),
      squadra_norm = nrm,
      punteggio_totale = obj_Punti (getitem current_scores nrm)\<rparr>"

text \<open>
  The classification loop: every key of the snapshot goes to exactly one of
  \<^verbatim>\<open>changed\<close>, \<^verbatim>\<open>unchanged\<close>, \<^verbatim>\<open>new_teams\<close>, each list in snapshot order.
\<close>

fun classify :: "dataframe \<Rightarrow> real \<Rightarrow> scores \<Rightarrow> string list \<times> string list \<times> string list" where
  "classify dl float_eps [] = ([], [], [])"
| "classify dl float_eps ((nrm, obj) # rest) =
     (case classify dl float_eps rest of (changed, unchanged, new_teams) \<Rightarrow>
        if \<not> in_index nrm dl then (changed, unchanged, nrm # new_teams)
        else if \<bar>obj_Punti obj - loc_punteggio_totale dl nrm\<bar> > float_eps
          then (nrm # changed, unchanged, new_teams)
          else (changed, nrm # unchanged, new_teams))"

text \<open>The guard against a (round, team key) pair that the ledger already holds.\<close>

definition row_key :: "row \<Rightarrow> int \<times> string" where
  "row_key r = (giornata r, squadra_norm r)"

definition existing_keys :: "dataframe \<Rightarrow> (int \<times> string) set" where
  "existing_keys df_storico = set (map row_key df_storico)"

definition drop_existing :: "dataframe \<Rightarrow> dataframe \<Rightarrow> dataframe" where
  "drop_existing df_storico df_new =
     filter (\<lambda>r. row_key r \<notin> existing_keys df_storico) df_new"

text \<open>\<^verbatim>\<open>pd.concat([df_storico, df_new])\<close> when \<^verbatim>\<open>df_new\<close> has rows, a copy otherwise.\<close>

definition concat_or_copy :: "dataframe \<Rightarrow> dataframe \<Rightarrow> dataframe" where
  "concat_or_copy df_storico df_new = (if df_new \<noteq> [] then df_storico @ df_new else df_storico)"

definition update_storico ::
  "dataframe \<Rightarrow> scores \<Rightarrow> datetime \<Rightarrow> real \<Rightarrow> dataframe \<times> int option \<times> stats" where
  "update_storico df_storico current_scores run_dt float_eps =
     (if df_storico = [] then
        (let rows = map (\<lambda>(nrm, obj).
               \<lparr>giornata = 1, data_download = Some run_dt, Squadra = obj_Squadra obj,
                squadra_norm = nrm, punteggio_totale = obj_Punti obj\<rparr>) current_scores
         in (rows, Some 1,
             \<lparr>added_changed = length rows, added_new_prev = 0,
              skipped_unchanged = 0, no_change = 0\<rparr>))
      else
        (case classify (df_last df_storico) float_eps current_scores of
           (changed, unchanged, new_teams) \<Rightarrow>
             if changed \<noteq> [] then
               (let giornata_new = last_giornata df_storico + 1;
                    prev_dt = compute_prev_giornata_date df_storico (last_giornata df_storico) run_dt;
                    rows_to_add =
                      map (mk_row giornata_new run_dt current_scores) changed @
                      map (mk_row (last_giornata df_storico) prev_dt current_scores) new_teams;
                    df_new = drop_existing df_storico rows_to_add
                in (concat_or_copy df_storico df_new, Some giornata_new,
                    \<lparr>added_changed = length changed, added_new_prev = length new_teams,
                     skipped_unchanged = length unchanged, no_change = 0\<rparr>))
             else if new_teams \<noteq> [] then
               (let prev_dt = compute_prev_giornata_date df_storico (last_giornata df_storico) run_dt;
                    rows_to_add =
                      map (mk_row (last_giornata df_storico) prev_dt current_scores) new_teams;
                    df_new = drop_existing df_storico rows_to_add
                in (concat_or_copy df_storico df_new, None,
                    \<lparr>added_changed = 0, added_new_prev = length new_teams,
                     skipped_unchanged = length unchanged, no_change = 0\<rparr>))
             else
               (df_storico, None,
                \<lparr>added_changed = 0, added_new_prev = 0,
                 skipped_unchanged = length unchanged, no_change = 1\<rparr>)))"

text \<open>
  The reconciler without the guard, to compare with \<^const>\<open>update_storico\<close>: the same
  text with \<^const>\<open>drop_existing\<close> left out.
\<close>

definition update_storico_nofilter ::
  "dataframe \<Rightarrow> scores \<Rightarrow> datetime \<Rightarrow> real \<Rightarrow> dataframe \<times> int option \<times> stats" where
  "update_storico_nofilter df_storico current_scores run_dt float_eps =
     (if df_storico = [] then
        (let rows = map (\<lambda>(nrm, obj).
               \<lparr>giornata = 1, data_download = Some run_dt, Squadra = obj_Squadra obj,
                squadra_norm = nrm, punteggio_totale = obj_Punti obj\<rparr>) current_scores
         in (rows, Some 1,
             \<lparr>added_changed = length rows, added_new_prev = 0,
              skipped_unchanged = 0, no_change = 0\<rparr>))
      else
        (case classify (df_last df_storico) float_eps current_scores of
           (changed, unchanged, new_teams) \<Rightarrow>
             if changed \<noteq> [] then
               (let giornata_new = last_giornata df_storico + 1;
                    prev_dt = compute_prev_giornata_date df_storico (last_giornata df_storico) run_dt;
                    rows_to_add =
                      map (mk_row giornata_new run_dt current_scores) changed @
                      map (mk_row (last_giornata df_storico) prev_dt current_scores) new_teams
                in (concat_or_copy df_storico rows_to_add, Some giornata_new,
                    \<lparr>added_changed = length changed, added_new_prev = length new_teams,
                     skipped_unchanged = length unchanged, no_change = 0\<rparr>))
             else if new_teams \<noteq> [] then
               (let prev_dt = compute_prev_giornata_date df_storico (last_giornata df_storico) run_dt;
                    rows_to_add =
                      map (mk_row (last_giornata df_storico) prev_dt current_scores) new_teams
                in (concat_or_copy df_storico rows_to_add, None,
                    \<lparr>added_changed = 0, added_new_prev = length new_teams,
                     skipped_unchanged = length unchanged, no_change = 0\<rparr>))
             else
               (df_storico, None,
                \<lparr>added_changed = 0, added_new_prev = 0,
                 skipped_unchanged = length unchanged, no_change = 1\<rparr>)))"

section \<open>Names and numbers\<close>

text \<open>
  Python strings are sequences of code points; a \<open>char\<close> is a code point below 256.
  On these, \<^verbatim>\<open>str.isspace\<close> holds of the twelve characters below and \<^verbatim>\<open>str.lower\<close>
  moves \<^verbatim>\<open>A-Z\<close> and the capital letters of Latin-1 (\<^verbatim>\<open>U+00C0\<close> to \<^verbatim>\<open>U+00DE\<close> except
  the multiplication sign) up by 32.
\<close>

definition isspace :: "char \<Rightarrow> bool" where
  "isspace c = (of_char c \<in> {9, 10, 11, 12, 13, 28, 29, 30, 31, 32, 133, 160 :: nat})"

text \<open>\<^verbatim>\<open>str.split()\<close>: the maximal runs of characters that are not white space.
  The first argument is the run read so far, in reverse.\<close>

fun split_ws :: "string \<Rightarrow> string \<Rightarrow> string list" where
  "split_ws w [] = (if w = [] then [] else [rev w])"
| "split_ws w (c # cs) =
     (if isspace c then (if w = [] then split_ws [] cs else rev w # split_ws [] cs)
      else split_ws (c # w) cs)"

fun join :: "string \<Rightarrow> string list \<Rightarrow> string" where
  "join sep [] = []"
| "join sep [w] = w"
| "join sep (w # ws) = w @ sep @ join sep ws"

definition strip :: "string \<Rightarrow> string" where
  "strip s = rev (dropWhile isspace (rev (dropWhile isspace s)))"

definition lower_char :: "char \<Rightarrow> char" where
  "lower_char c =
     (let n = of_char c :: nat
      in if (65 \<le> n \<and> n \<le> 90) \<or> (192 \<le> n \<and> n \<le> 222 \<and> n \<noteq> 215) then char_of (n + 32)
         else c)"

definition lower :: "string \<Rightarrow> string" where
  "lower s = map lower_char s"

definition normalize_name :: "string \<Rightarrow> string" where
  "normalize_name name = lower (strip (join '' '' (split_ws [] name)))"

text \<open>\<^verbatim>\<open>s.replace(old, new)\<close> for a one-character \<^verbatim>\<open>old\<close>.\<close>

definition replace :: "char \<Rightarrow> string \<Rightarrow> string \<Rightarrow> string" where
  "replace old new s = concat (map (\<lambda>c. if c = old then new else [c]) s)"

text \<open>
  \<^verbatim>\<open>float(s)\<close> on the plain decimal spellings: white space stripped, an optional sign,
  digits with at most one point and at least one digit. The value is the decimal number
  written, which Python then rounds to the nearest double. A string of signs, digits and
  points outside this grammar raises \<^verbatim>\<open>ValueError\<close>; the other spellings that
  \<^verbatim>\<open>float\<close> accepts or rejects (exponents, underscores, \<^verbatim>\<open>inf\<close>, \<^verbatim>\<open>nan\<close>, letters)
  are outside this model.
\<close>

datatype float_error = ValueError | NotModelled

definition isdigit :: "char \<Rightarrow> bool" where
  "isdigit c = (48 \<le> (of_char c :: nat) \<and> (of_char c :: nat) \<le> 57)"

definition digits_value :: "string \<Rightarrow> nat" where
  "digits_value ds = foldl (\<lambda>a c. 10 * a + (of_char c - 48)) 0 ds"

definition float_of_string :: "string \<Rightarrow> float_error + real" where
  "float_of_string s =
     (let t = strip s;
          negative = (t \<noteq> [] \<and> hd t = CHR ''-'');
          u = (if t \<noteq> [] \<and> (hd t = CHR ''-'' \<or> hd t = CHR ''+'') then tl t else t);
          ip = takeWhile isdigit u;
          rest = dropWhile isdigit u
      in if \<not> list_all (\<lambda>c. isdigit c \<or> c = CHR ''.'') u then Inl NotModelled
         else if rest = [] then
           (if ip = [] then Inl ValueError
            else Inr ((if negative then - 1 else 1) * real (digits_value ip)))
         else if list_all isdigit (tl rest) \<and> (ip \<noteq> [] \<or> tl rest \<noteq> []) then
           Inr ((if negative then - 1 else 1) *
                (real (digits_value ip) + real (digits_value (tl rest)) / 10 ^ length (tl rest)))
         else Inl ValueError)"

definition parse_italian_number :: "string \<Rightarrow> float_error + real" where
  "parse_italian_number s =
     (let s1 = replace CHR '' '' [] (replace (CHR 0xA0) '' '' s);
          s2 = replace CHR '','' ''.'' (replace CHR ''.'' [] s1)
      in float_of_string s2)"

section \<open>The snapshot reducer\<close>

text \<open>A row produced by \<^verbatim>\<open>parse_rankings\<close>.\<close>

record raw_row =
  raw_Squadra :: string
  raw_Punti :: real
  raw_posizione :: "int option"
  raw_url :: string

text \<open>
  One turn of the loop of \<^verbatim>\<open>collect_current_scores\<close>. Assigning to a key that the
  dictionary holds keeps the key's place; a new key goes to the end.
\<close>

definition collect_step :: "scores \<Rightarrow> raw_row \<Rightarrow> scores" where
  "collect_step scores r =
     (let nrm = normalize_name (raw_Squadra r)
      in if map_of scores nrm = None \<or> raw_Punti r > obj_Punti (the (map_of scores nrm))
         then AList.update nrm \<lparr>obj_Squadra = raw_Squadra r, obj_Punti = raw_Punti r\<rparr> scores
         else scores)"

definition collect_current_scores :: "raw_row list \<Rightarrow> scores" where
  "collect_current_scores all_rows = foldl collect_step [] all_rows"

section \<open>The derived views\<close>

text \<open>
  \<^verbatim>\<open>df.groupby("squadra_norm")["punteggio_totale"].shift(1)\<close>: every row paired with
  the total of the row before it in its group, missing for the first row of a group. The
  first argument holds, per group, the total of the latest row passed.
\<close>

fun groupby_shift1 :: "(string \<rightharpoonup> real) \<Rightarrow> dataframe \<Rightarrow> (row \<times> real option) list" where
  "groupby_shift1 m [] = []"
| "groupby_shift1 m (r # rs) =
     (r, m (squadra_norm r)) # groupby_shift1 (m(squadra_norm r \<mapsto> punteggio_totale r)) rs"

record punteggio_row =
  pg_giornata :: int
  pg_data_download :: "datetime option"
  pg_Squadra :: string
  punteggio_giornata :: real

text \<open>
  \<^verbatim>\<open>build_punteggi_giornata\<close>. \<open>delta_of\<close> is the row of the output made from a row and
  its \<^verbatim>\<open>prev_tot\<close>, when that is present. The rows whose \<^verbatim>\<open>prev_tot\<close> is present are kept, then
  sorted on \<^verbatim>\<open>giornata\<close> ascending and \<^verbatim>\<open>punteggio_giornata\<close> descending: a sort on
  two columns, hence stable.
\<close>

definition delta_of :: "row \<times> real option \<Rightarrow> punteggio_row option" where
  "delta_of = (\<lambda>(r, prev_tot).
     case prev_tot of
       None \<Rightarrow> None
     | Some p \<Rightarrow> Some \<lparr>pg_giornata = giornata r, pg_data_download = data_download r,
                      pg_Squadra = Squadra r,
                      punteggio_giornata = punteggio_totale r - p\<rparr>)"

definition build_punteggi_giornata :: "dataframe \<Rightarrow> punteggio_row list" where
  "build_punteggi_giornata df_storico =
     (if df_storico = [] then []
      else
        (let df = groupby_shift1 Map.empty (sort_values_norm_giornata df_storico);
             out = List.map_filter delta_of df
         in sort_key (\<lambda>d. (pg_giornata d, - punteggio_giornata d)) out))"

record classifica_row =
  posizione :: nat
  cl_Squadra :: string
  cl_punteggio_totale :: real
  cl_giornata :: int
  cl_data_download :: "datetime option"

text \<open>
  \<^verbatim>\<open>build_ultima_classifica\<close>. Its last sort,
  \<^verbatim>\<open>sort_values("punteggio_totale", ascending=False)\<close>, is on one column with the
  default \<^verbatim>\<open>kind="quicksort"\<close>. For one column pandas computes the order with
  \<^verbatim>\<open>nargsort\<close>: the values are reversed, \<^verbatim>\<open>numpy\<close> sorts their positions in ascending
  order with its quicksort, and the positions found are reversed again. The quicksort of
  \<^verbatim>\<open>numpy\<close> for an array of doubles and an array of positions (\<^verbatim>\<open>aquicksort\<close>) is an
  introsort: while a run has more than 17 places it takes the median of the first, the
  middle and the last as the pivot, parts the run around it and goes on with both parts;
  a run of at most 17 places is sorted by insertion; the depth of the partitions is
  limited to twice the position of the highest bit of the length, and a run that comes up
  past this limit is given to a heap sort. The definitions below follow that routine
  statement by statement, with the names of its variables (\<open>p_i\<close> and \<open>p_j\<close> for
  \<^verbatim>\<open>pi\<close> and \<^verbatim>\<open>pj\<close>). The heap sort is not modelled: the result is \<open>None\<close> where the
  limit is reached. Builds of \<^verbatim>\<open>numpy\<close> that hand the sort to a vectorised routine are
  not covered either.
\<close>

function npy_get_msb :: "nat \<Rightarrow> nat" where
  "npy_get_msb n = (if n < 2 then 0 else Suc (npy_get_msb (n div 2)))"
  by pat_completeness auto
termination
  by (relation "measure id") auto

declare npy_get_msb.simps [simp del]

definition intp_swap :: "nat list \<Rightarrow> nat \<Rightarrow> nat \<Rightarrow> nat list" where
  "intp_swap a i j = (a[i := a ! j])[j := a ! i]"

text \<open>
  \<^verbatim>\<open>do ++pi; while (v[*pi] < vp);\<close> and \<^verbatim>\<open>do --pj; while (vp < v[*pj]);\<close>: the place
  where the scan stops. The pivot stands at both ends of the places scanned, so the scans
  of the routine stop inside the array.
\<close>

definition scan_up :: "real list \<Rightarrow> real \<Rightarrow> nat list \<Rightarrow> nat \<Rightarrow> nat" where
  "scan_up v vp a p_i = p_i + 1 + length (takeWhile (\<lambda>x. v ! x < vp) (drop (p_i + 1) a))"

definition scan_down :: "real list \<Rightarrow> real \<Rightarrow> nat list \<Rightarrow> nat \<Rightarrow> nat" where
  "scan_down v vp a p_j = p_j - 1 - length (takeWhile (\<lambda>x. vp < v ! x) (rev (take p_j a)))"

text \<open>The loop \<^verbatim>\<open>for (;;)\<close> of the partition: scan, stop when the scans meet, swap.\<close>

function partition_loop ::
  "real list \<Rightarrow> real \<Rightarrow> nat list \<Rightarrow> nat \<Rightarrow> nat \<Rightarrow> nat list \<times> nat" where
  "partition_loop v vp a p_i p_j =
     (if scan_up v vp a p_i \<ge> scan_down v vp a p_j then (a, scan_up v vp a p_i)
      else partition_loop v vp (intp_swap a (scan_up v vp a p_i) (scan_down v vp a p_j))
             (scan_up v vp a p_i) (scan_down v vp a p_j))"
  by pat_completeness auto
termination
  by (relation "measure (\<lambda>(v, vp, a, p_i, p_j). p_j - p_i)") (auto simp: scan_up_def scan_down_def)

declare partition_loop.simps [simp del]

text \<open>
  One partition of the run from \<open>pl\<close> to \<open>pr\<close>: the median of three is moved to
  \<open>pr - 1\<close>, the loop runs from \<open>pl\<close> and \<open>pr - 1\<close>, and the pivot is put back at the
  place \<open>p_i\<close> where the scans met, which is returned with the array.
\<close>

definition partition_seg :: "real list \<Rightarrow> nat list \<Rightarrow> nat \<Rightarrow> nat \<Rightarrow> nat list \<times> nat" where
  "partition_seg v a pl pr =
     (let pm = pl + (pr - pl) div 2;
          a1 = (if v ! (a ! pm) < v ! (a ! pl) then intp_swap a pm pl else a);
          a2 = (if v ! (a1 ! pr) < v ! (a1 ! pm) then intp_swap a1 pr pm else a1);
          a3 = (if v ! (a2 ! pm) < v ! (a2 ! pl) then intp_swap a2 pm pl else a2);
          vp = v ! (a3 ! pm);
          a4 = intp_swap a3 pm (pr - 1);
          (a5, p_i) = partition_loop v vp a4 pl (pr - 1)
      in (intp_swap a5 p_i (pr - 1), p_i))"

text \<open>
  The insertion sort of the run from \<open>pl\<close> to \<open>pr\<close>: every position is moved to the left
  past the positions whose value is larger, and no further.
\<close>

definition insert_left :: "real list \<Rightarrow> nat list \<Rightarrow> nat \<Rightarrow> nat list" where
  "insert_left v sorted_part vi =
     (let k = length (takeWhile (\<lambda>x. v ! vi < v ! x) (rev sorted_part))
      in take (length sorted_part - k) sorted_part @ [vi] @ drop (length sorted_part - k) sorted_part)"

definition insertion_sort_seg :: "real list \<Rightarrow> nat list \<Rightarrow> nat \<Rightarrow> nat \<Rightarrow> nat list" where
  "insertion_sort_seg v a pl pr =
     take pl a @ foldl (insert_left v) [] (take (pr + 1 - pl) (drop pl a)) @ drop (pr + 1) a"

text \<open>
  The sort of one run. The second argument is the depth left, plus one: the routine
  gives both parts of a partition the depth of the run less one. The routine keeps the
  larger part on a stack and goes on with the smaller; the parts share no place, so the
  order in which they are sorted does not show in the result.
\<close>

fun aquicksort_seg :: "real list \<Rightarrow> nat \<Rightarrow> nat list \<Rightarrow> nat \<Rightarrow> nat \<Rightarrow> nat list option" where
  "aquicksort_seg v 0 a pl pr = None"
| "aquicksort_seg v (Suc c) a pl pr =
     (if pr - pl > 16 then
        (case aquicksort_seg v c (fst (partition_seg v a pl pr)) pl
                (snd (partition_seg v a pl pr) - 1) of
           None \<Rightarrow> None
         | Some a' \<Rightarrow> aquicksort_seg v c a' (snd (partition_seg v a pl pr) + 1) pr)
      else Some (insertion_sort_seg v a pl pr))"

definition aquicksort :: "real list \<Rightarrow> nat list option" where
  "aquicksort v =
     aquicksort_seg v (2 * npy_get_msb (length v) + 1) [0 ..< length v] 0 (length v - 1)"

text \<open>\<^verbatim>\<open>nargsort(items, kind="quicksort", ascending=False)\<close> on values that are all
  present.\<close>

definition nargsort_desc :: "real list \<Rightarrow> nat list option" where
  "nargsort_desc items =
     (let non_nans = rev items;
          non_nan_idx = rev [0 ..< length items]
      in case aquicksort non_nans of
           None \<Rightarrow> None
         | Some perm \<Rightarrow> Some (rev (map (\<lambda>j. non_nan_idx ! j) perm)))"

text \<open>
  \<^verbatim>\<open>df.sort_values("punteggio_totale", ascending=False)\<close>: the rows taken in the order
  that \<^const>\<open>nargsort_desc\<close> gives. Where the model of the sort has no answer the frame
  stands in for it; the statements below say where it has one. The sort is applied to the
  whole rows: the source selects the columns before, which changes nothing, since the sort
  reads one column only.
\<close>

definition sort_values_punteggio_desc :: "dataframe \<Rightarrow> dataframe" where
  "sort_values_punteggio_desc df =
     (case nargsort_desc (map punteggio_totale df) of
        Some indexer \<Rightarrow> map (\<lambda>i. df ! i) indexer
      | None \<Rightarrow> df)"


text \<open>The columns kept of a row, with \<^verbatim>\<open>posizione\<close> inserted in front.\<close>

definition classifica_row_of :: "nat \<Rightarrow> row \<Rightarrow> classifica_row" where
  "classifica_row_of i r =
     \<lparr>posizione = i, cl_Squadra = Squadra r, cl_punteggio_totale = punteggio_totale r,
      cl_giornata = giornata r, cl_data_download = data_download r\<rparr>"

definition build_ultima_classifica :: "dataframe \<Rightarrow> classifica_row list" where
  "build_ultima_classifica df_storico =
     (if df_storico = [] then []
      else
        (let last_per_team =
               sort_values_punteggio_desc (groupby_tail1 (sort_values_norm_giornata df_storico))
         in map (\<lambda>(i, r). classifica_row_of i r)
              (zip [1 ..< length last_per_team + 1] last_per_team)))"

section \<open>The round deltas, team by team\<close>

text \<open>
  The description to compare \<^const>\<open>build_punteggi_giornata\<close> with: the entries of one
  team in ascending order of round, and one row for every entry but the first, holding the
  entry's total minus the total of the entry before it.
\<close>

definition team_entries :: "string \<Rightarrow> dataframe \<Rightarrow> dataframe" where
  "team_entries k df_storico = sort_key giornata (filter (\<lambda>r. squadra_norm r = k) df_storico)"

text \<open>
  The rows that a run of entries of one team yields when the total before the run is
  known (\<open>Some\<close>) or there is none (\<open>None\<close>).
\<close>

fun deltas_from :: "real option \<Rightarrow> dataframe \<Rightarrow> punteggio_row list" where
  "deltas_from p [] = []"
| "deltas_from p (e # es) =
     (case p of
        None \<Rightarrow> []
      | Some v \<Rightarrow> [\<lparr>pg_giornata = giornata e, pg_data_download = data_download e,
                   pg_Squadra = Squadra e, punteggio_giornata = punteggio_totale e - v\<rparr>])
     @ deltas_from (Some (punteggio_totale e)) es"

definition team_deltas :: "dataframe \<Rightarrow> punteggio_row list" where
  "team_deltas es =
     map (\<lambda>(prev, cur). \<lparr>pg_giornata = giornata cur, pg_data_download = data_download cur,
                          pg_Squadra = Squadra cur,
                          punteggio_giornata = punteggio_totale cur - punteggio_totale prev\<rparr>)
       (zip es (tl es))"

section \<open>Examples\<close>

text \<open>A ledger of one round with two teams, and a snapshot in which one team has kept its
  score, one has a new score and one is new.\<close>

definition ledger_AB :: dataframe where
  "ledger_AB =
     [\<lparr>giornata = 1, data_download = Some 100, Squadra = ''A'', squadra_norm = ''a'',
       punteggio_totale = 10\<rparr>,
      \<lparr>giornata = 1, data_download = Some 100, Squadra = ''B'', squadra_norm = ''b'',
       punteggio_totale = 20\<rparr>]"

definition snapshot_ABC :: scores where
  "snapshot_ABC =
     [(''a'', \<lparr>obj_Squadra = ''A'', obj_Punti = 10\<rparr>),
      (''b'', \<lparr>obj_Squadra = ''B'', obj_Punti = 25\<rparr>),
      (''c'', \<lparr>obj_Squadra = ''C'', obj_Punti = 5\<rparr>)]"

text \<open>A ledger in which two teams hold the same total.\<close>

definition ledger_tie :: dataframe where
  "ledger_tie =
     [\<lparr>giornata = 1, data_download = Some 100, Squadra = ''A'', squadra_norm = ''a'',
       punteggio_totale = 10\<rparr>,
      \<lparr>giornata = 1, data_download = Some 100, Squadra = ''B'', squadra_norm = ''b'',
       punteggio_totale = 10\<rparr>]"


text \<open>A ledger of three rounds: team \<^verbatim>\<open>a\<close> moves from 10 to 15 to 18, team \<^verbatim>\<open>b\<close>
  from 20 to 27.\<close>

definition ledger_rounds :: dataframe where
  "ledger_rounds =
     [\<lparr>giornata = 1, data_download = Some 100, Squadra = ''A'', squadra_norm = ''a'',
       punteggio_totale = 10\<rparr>,
      \<lparr>giornata = 1, data_download = Some 100, Squadra = ''B'', squadra_norm = ''b'',
       punteggio_totale = 20\<rparr>,
      \<lparr>giornata = 2, data_download = Some 200, Squadra = ''A'', squadra_norm = ''a'',
       punteggio_totale = 15\<rparr>,
      \<lparr>giornata = 2, data_download = Some 200, Squadra = ''B'', squadra_norm = ''b'',
       punteggio_totale = 27\<rparr>,
      \<lparr>giornata = 3, data_download = Some 300, Squadra = ''A'', squadra_norm = ''a'',
       punteggio_totale = 18\<rparr>]"

text \<open>Two observations of one team under two spellings, with equal scores, and one
  with a smaller score.\<close>

definition obs_Pisa :: raw_row where
  "obs_Pisa = \<lparr>raw_Squadra = ''Pisa'', raw_Punti = 10, raw_posizione = Some 1, raw_url = ''u1''\<rparr>"

definition obs_PISA :: raw_row where
  "obs_PISA = \<lparr>raw_Squadra = ''PISA'', raw_Punti = 10, raw_posizione = Some 1, raw_url = ''u2''\<rparr>"

definition obs_pisa_7 :: raw_row where
  "obs_pisa_7 = \<lparr>raw_Squadra = ''pisa'', raw_Punti = 7, raw_posizione = Some 2, raw_url = ''u3''\<rparr>"

section \<open>Evaluation of the reconciler on the examples\<close>

lemma df_last_ledger_AB: "df_last ledger_AB = ledger_AB"
  by (simp add: df_last_def sort_values_norm_giornata_def ledger_AB_def)

lemma classify_ABC:
  "classify ledger_AB (1 / 1000000) snapshot_ABC = ([''b''], [''a''], [''c''])"
  by (simp add: snapshot_ABC_def ledger_AB_def in_index_def loc_punteggio_totale_def)

lemma update_storico_ABC:
  "update_storico ledger_AB snapshot_ABC 200 (1 / 1000000) =
     (ledger_AB @
        [\<lparr>giornata = 2, data_download = Some 200, Squadra = ''B'', squadra_norm = ''b'',
          punteggio_totale = 25\<rparr>,
         \<lparr>giornata = 1, data_download = Some 100, Squadra = ''C'', squadra_norm = ''c'',
          punteggio_totale = 5\<rparr>],
      Some 2,
      \<lparr>added_changed = 1, added_new_prev = 1, skipped_unchanged = 1, no_change = 0\<rparr>)"
proof -
  have ne: "ledger_AB \<noteq> []" by (simp add: ledger_AB_def)
  have lg: "last_giornata ledger_AB = 1" by (simp add: last_giornata_def ledger_AB_def)
  have pd: "compute_prev_giornata_date ledger_AB 1 200 = 100"
    by (simp add: compute_prev_giornata_date_def ledger_AB_def List.map_filter_def)
  have ek: "existing_keys ledger_AB = {(1, ''a''), (1, ''b'')}"
    by (simp add: existing_keys_def row_key_def ledger_AB_def)
  show ?thesis
    unfolding update_storico_def df_last_ledger_AB classify_ABC
    by (simp add: ne lg pd ek mk_row_def getitem_def snapshot_ABC_def drop_existing_def row_key_def
        concat_or_copy_def)
qed

section \<open>Facts about the data frame operations\<close>

lemma classify_eq:
  "classify dl eps cs =
     (map fst (filter (\<lambda>(k, obj). in_index k dl \<and> \<bar>obj_Punti obj - loc_punteggio_totale dl k\<bar> > eps) cs),
      map fst (filter (\<lambda>(k, obj). in_index k dl \<and> \<not> \<bar>obj_Punti obj - loc_punteggio_totale dl k\<bar> > eps) cs),
      map fst (filter (\<lambda>(k, obj). \<not> in_index k dl) cs))"
  by (induction cs) (auto split: prod.splits)

lemma set_groupby_tail1: "squadra_norm ` set (groupby_tail1 rs) = squadra_norm ` set rs"
  by (induction rs) auto

lemma in_index_df_last: "in_index k (df_last df) \<longleftrightarrow> k \<in> squadra_norm ` set df"
  by (simp add: in_index_def df_last_def set_groupby_tail1 sort_values_norm_giornata_def)

lemma classify_new_not_in_index:
  assumes "classify dl eps cs = (c, u, n)"
  shows "\<forall>k \<in> set n. \<not> in_index k dl"
  using assms unfolding classify_eq by auto

lemma classify_distinct:
  assumes "classify dl eps cs = (c, u, n)" "distinct (map fst cs)"
  shows "distinct c" "distinct u" "distinct n"
  using assms unfolding classify_eq by (auto simp: distinct_map_filter)

lemma classify_new_absent:
  assumes "classify (df_last df) eps cs = (c, u, n)"
  shows "\<forall>k \<in> set n. k \<notin> squadra_norm ` set df"
  using classify_new_not_in_index[OF assms] by (simp add: in_index_df_last)

lemma giornata_le_last: "r \<in> set df \<Longrightarrow> giornata r \<le> last_giornata df"
  by (simp add: last_giornata_def)

lemma row_key_mk_row: "row_key (mk_row g dt cs k) = (g, k)"
  by (simp add: row_key_def mk_row_def)

lemma drop_existing_changed:
  "drop_existing df (map (mk_row (last_giornata df + 1) dt cs) c) =
   map (mk_row (last_giornata df + 1) dt cs) c"
  unfolding drop_existing_def existing_keys_def
  by (rule filter_True) (auto simp: mk_row_def row_key_def dest: giornata_le_last)

lemma drop_existing_new:
  assumes "\<forall>k \<in> set n. k \<notin> squadra_norm ` set df"
  shows "drop_existing df (map (mk_row g dt cs) n) = map (mk_row g dt cs) n"
  unfolding drop_existing_def existing_keys_def
  by (rule filter_True) (use assms in \<open>auto simp: mk_row_def row_key_def\<close>)

lemma drop_existing_append:
  "drop_existing df (xs @ ys) = drop_existing df xs @ drop_existing df ys"
  by (simp add: drop_existing_def)

lemma drop_existing_candidates:
  assumes "classify (df_last df) eps cs = (c, u, n)"
  shows "drop_existing df (map (mk_row (last_giornata df + 1) dt cs) c @ map (mk_row g dt' cs) n)
         = map (mk_row (last_giornata df + 1) dt cs) c @ map (mk_row g dt' cs) n"
  by (simp only: drop_existing_append drop_existing_changed
      drop_existing_new[OF classify_new_absent[OF assms]])

lemma prefix_concat_or_copy: "prefix df (concat_or_copy df new)"
  by (simp add: concat_or_copy_def)

lemma distinct_concat_drop:
  assumes "distinct (map row_key df)" and "distinct (map row_key rows)"
  shows "distinct (map row_key (concat_or_copy df (drop_existing df rows)))"
proof -
  have "set (map row_key df) \<inter> set (map row_key (drop_existing df rows)) = {}"
    by (auto simp: drop_existing_def existing_keys_def)
  moreover have "distinct (map row_key (drop_existing df rows))"
    using assms(2) by (simp add: drop_existing_def distinct_map_filter)
  ultimately show ?thesis using assms(1) by (simp add: concat_or_copy_def)
qed

lemma distinct_mk_rows:
  assumes "distinct ks"
  shows "distinct (map row_key (map (mk_row g dt cs) ks))"
  using assms by (simp add: distinct_map row_key_mk_row inj_on_def comp_def)

lemma distinct_candidates:
  assumes "distinct c" "distinct n" "g \<noteq> g'"
  shows "distinct (map row_key (map (mk_row g dt cs) c @ map (mk_row g' dt' cs) n))"
  using distinct_mk_rows[OF assms(1), of g dt cs] distinct_mk_rows[OF assms(2), of g' dt' cs] assms(3)
  by (auto simp: row_key_mk_row)

lemma row_key_first_rows:
  "map row_key (map (\<lambda>(nrm, obj).
               \<lparr>giornata = 1, data_download = Some run_dt, Squadra = obj_Squadra obj,
                squadra_norm = nrm, punteggio_totale = obj_Punti obj\<rparr>) current_scores)
        = map (\<lambda>k. (1, k)) (map fst current_scores)"
  by (induction current_scores) (auto simp: row_key_def)

lemma update_storico_Nil:
  "fst (update_storico [] current_scores run_dt float_eps) =
     map (\<lambda>(nrm, obj).
               \<lparr>giornata = 1, data_download = Some run_dt, Squadra = obj_Squadra obj,
                squadra_norm = nrm, punteggio_totale = obj_Punti obj\<rparr>) current_scores"
  by (simp add: update_storico_def)

lemma set_map_filter: "set (List.map_filter f xs) = {y. \<exists>x \<in> set xs. f x = Some y}"
  by (induction xs) (auto split: option.splits)

lemma set_round_dates:
  "set (List.map_filter data_download (filter (\<lambda>r. giornata r = g) df))
   = {d. \<exists>r \<in> set df. giornata r = g \<and> data_download r = Some d}"
  unfolding set_map_filter by auto

lemma compute_prev_giornata_date_cases:
  "compute_prev_giornata_date df g fb =
     (if {d. \<exists>r \<in> set df. giornata r = g \<and> data_download r = Some d} = {} then fb
      else Max {d. \<exists>r \<in> set df. giornata r = g \<and> data_download r = Some d})"
proof -
  let ?xs = "List.map_filter data_download (filter (\<lambda>r. giornata r = g) df)"
  have "compute_prev_giornata_date df g fb = (if set ?xs = {} then fb else Max (set ?xs))"
    by (cases ?xs) (simp_all add: compute_prev_giornata_date_def)
  then show ?thesis unfolding set_round_dates .
qed

lemma compute_prev_giornata_date_latest:
  "(if \<exists>r \<in> set df. giornata r = g \<and> data_download r \<noteq> None
    then (\<exists>r \<in> set df. giornata r = g \<and> data_download r = Some (compute_prev_giornata_date df g fb)) \<and>
         (\<forall>r \<in> set df. \<forall>d. giornata r = g \<and> data_download r = Some d \<longrightarrow>
            d \<le> compute_prev_giornata_date df g fb)
    else compute_prev_giornata_date df g fb = fb)"
proof -
  let ?D = "{d. \<exists>r \<in> set df. giornata r = g \<and> data_download r = Some d}"
  have fin: "finite ?D"
  proof -
    have "?D \<subseteq> (\<lambda>r. the (data_download r)) ` set df" by force
    then show ?thesis by (rule finite_subset) simp
  qed
  show ?thesis
  proof (cases "\<exists>r \<in> set df. giornata r = g \<and> data_download r \<noteq> None")
    case True
    then have ne: "?D \<noteq> {}" by auto
    then have eq: "compute_prev_giornata_date df g fb = Max ?D"
      unfolding compute_prev_giornata_date_cases by (rule if_not_P)
    have "Max ?D \<in> ?D" using fin ne by (rule Max_in)
    moreover have "\<forall>d \<in> ?D. d \<le> Max ?D" using fin by simp
    ultimately show ?thesis using True unfolding eq by auto
  next
    case False
    then have "?D = {}" by auto
    then have "compute_prev_giornata_date df g fb = fb"
      unfolding compute_prev_giornata_date_cases by (rule if_P)
    then show ?thesis using False by auto
  qed
qed

lemma getitem_distinct:
  assumes "distinct (map fst cs)" "(k, obj) \<in> set cs"
  shows "getitem cs k = obj"
  using assms by (simp add: getitem_def)

section \<open>The reconciler: rounds, appends, duplicates\<close>

text \<open>
  C1. The round returned by \<^const>\<open>update_storico\<close>, when there is one, is 1 on an empty
  ledger and the largest round of the ledger plus 1 otherwise; on an empty ledger a round
  is always returned, and it is 1.
\<close>

theorem update_storico_new_round:
  "(fst (snd (update_storico df_storico current_scores run_dt float_eps)) = Some g \<longrightarrow>
      g = (if df_storico = [] then 1 else Max (giornata ` set df_storico) + 1)) \<and>
   fst (snd (update_storico [] current_scores run_dt float_eps)) = Some 1"
  by (auto simp: update_storico_def Let_def last_giornata_def split: prod.splits if_splits)

theorem update_storico_new_round_witness:
  "fst (snd (update_storico ledger_AB snapshot_ABC 200 (1 / 1000000))) = Some 2 \<and>
   (2::int) = (if ledger_AB = [] then 1 else Max (giornata ` set ledger_AB) + 1) \<and>
   fst (snd (update_storico [] snapshot_ABC 200 (1 / 1000000))) = Some 1"
  using update_storico_new_round[of ledger_AB snapshot_ABC 200 "1 / 1000000" 2]
  by (simp add: update_storico_ABC)

text \<open>
  C2. When no two rows of the ledger share a (round, team key) pair, and the snapshot is
  a dictionary, no two rows of the ledger returned by \<^const>\<open>update_storico\<close> share one.
\<close>

theorem update_storico_no_duplicates:
  assumes "distinct (map row_key df_storico)"
    and "distinct (map fst current_scores)"
  shows "distinct (map row_key (fst (update_storico df_storico current_scores run_dt float_eps)))"
proof (cases "df_storico = []")
  case True
  have "distinct (map (\<lambda>k. (1::int, k)) (map fst current_scores))"
    using assms(2) by (simp add: distinct_map inj_on_def)
  then show ?thesis
    unfolding True update_storico_Nil row_key_first_rows .
next
  case False
  obtain c u n where cl: "classify (df_last df_storico) float_eps current_scores = (c, u, n)"
    by (cases "classify (df_last df_storico) float_eps current_scores") auto
  note d = classify_distinct[OF cl assms(2)]
  show ?thesis
    using False assms(1)
    by (simp add: update_storico_def cl Let_def
        distinct_concat_drop[OF assms(1) distinct_candidates[OF d(1) d(3)]]
        distinct_concat_drop[OF assms(1) distinct_mk_rows[OF d(3)]])
qed

theorem update_storico_no_duplicates_witness:
  "distinct (map row_key ledger_AB) \<and> distinct (map fst snapshot_ABC) \<and>
   distinct (map row_key (fst (update_storico ledger_AB snapshot_ABC 200 (1 / 1000000)))) \<and>
   length (fst (update_storico ledger_AB snapshot_ABC 200 (1 / 1000000))) = 4"
proof -
  have h1: "distinct (map row_key ledger_AB)" by (simp add: ledger_AB_def row_key_def)
  have h2: "distinct (map fst snapshot_ABC)" by (simp add: snapshot_ABC_def)
  have "length (fst (update_storico ledger_AB snapshot_ABC 200 (1 / 1000000))) = 4"
    unfolding update_storico_ABC by (simp add: ledger_AB_def)
  with h1 h2 update_storico_no_duplicates[OF h1 h2, of 200 "1 / 1000000"] show ?thesis by simp
qed

text \<open>
  C3. On a ledger with rows, when \<^const>\<open>update_storico\<close> returns a new round \<open>g\<close>, every
  team of the snapshot whose key the ledger does not hold is appended in a row with the
  largest round of the ledger (not \<open>g\<close>), the team's name and score of the snapshot, and
  a time stamp \<open>t\<close>: the latest time stamp held by the rows of that round when one of them
  holds a time stamp, the time of the run otherwise. No appended row of that team has
  another round.
\<close>

theorem update_storico_backfill:
  assumes "df_storico \<noteq> []"
    and "distinct (map fst current_scores)"
    and "fst (snd (update_storico df_storico current_scores run_dt float_eps)) = Some g"
    and "(k, obj) \<in> set current_scores"
    and "k \<notin> squadra_norm ` set df_storico"
  shows "\<exists>new t.
      fst (update_storico df_storico current_scores run_dt float_eps) = df_storico @ new \<and>
      \<lparr>giornata = Max (giornata ` set df_storico), data_download = Some t,
       Squadra = obj_Squadra obj, squadra_norm = k, punteggio_totale = obj_Punti obj\<rparr> \<in> set new \<and>
      (\<forall>r \<in> set new. squadra_norm r = k \<longrightarrow>
         giornata r = Max (giornata ` set df_storico) \<and> giornata r \<noteq> g) \<and>
      (if \<exists>r \<in> set df_storico. giornata r = Max (giornata ` set df_storico) \<and> data_download r \<noteq> None
       then (\<exists>r \<in> set df_storico. giornata r = Max (giornata ` set df_storico) \<and> data_download r = Some t) \<and>
            (\<forall>r \<in> set df_storico. \<forall>d. giornata r = Max (giornata ` set df_storico) \<and>
               data_download r = Some d \<longrightarrow> d \<le> t)
       else t = run_dt)"
proof -
  let ?last = "last_giornata df_storico"
  let ?t = "compute_prev_giornata_date df_storico ?last run_dt"
  have last: "?last = Max (giornata ` set df_storico)" by (simp add: last_giornata_def)
  obtain c u n where cl: "classify (df_last df_storico) float_eps current_scores = (c, u, n)"
    by (cases "classify (df_last df_storico) float_eps current_scores") auto
  let ?new = "map (mk_row (?last + 1) run_dt current_scores) c @ map (mk_row ?last ?t current_scores) n"
  have c: "c \<noteq> []" and g: "g = ?last + 1"
    using assms(1,3) by (auto simp: update_storico_def cl Let_def split: if_splits)
  have out: "fst (update_storico df_storico current_scores run_dt float_eps) = df_storico @ ?new"
    using assms(1) c
    by (simp add: update_storico_def cl Let_def drop_existing_candidates[OF cl] concat_or_copy_def)
  have kn: "k \<in> set n"
    using cl assms(4,5) unfolding classify_eq by (force simp: in_index_df_last)
  have kc: "k \<notin> set c"
    using cl assms(5) unfolding classify_eq by (auto simp: in_index_df_last)
  have row: "mk_row ?last ?t current_scores k =
      \<lparr>giornata = ?last, data_download = Some ?t,
       Squadra = obj_Squadra obj, squadra_norm = k, punteggio_totale = obj_Punti obj\<rparr>"
    by (simp add: mk_row_def getitem_distinct[OF assms(2,4)])
  have 1: "\<lparr>giornata = ?last, data_download = Some ?t,
       Squadra = obj_Squadra obj, squadra_norm = k, punteggio_totale = obj_Punti obj\<rparr> \<in> set ?new"
    using kn row by force
  have 2: "\<forall>r \<in> set ?new. squadra_norm r = k \<longrightarrow> giornata r = ?last \<and> giornata r \<noteq> g"
    using kc g by (auto simp: mk_row_def)
  show ?thesis
    using out 1 2 compute_prev_giornata_date_latest[of df_storico ?last run_dt]
    unfolding last by blast
qed

theorem update_storico_backfill_witness:
  "ledger_AB \<noteq> [] \<and> distinct (map fst snapshot_ABC) \<and>
   fst (snd (update_storico ledger_AB snapshot_ABC 200 (1 / 1000000))) = Some 2 \<and>
   (''c'', \<lparr>obj_Squadra = ''C'', obj_Punti = 5\<rparr>) \<in> set snapshot_ABC \<and>
   ''c'' \<notin> squadra_norm ` set ledger_AB \<and>
   (\<exists>new t.
      fst (update_storico ledger_AB snapshot_ABC 200 (1 / 1000000)) = ledger_AB @ new \<and>
      \<lparr>giornata = Max (giornata ` set ledger_AB), data_download = Some t,
       Squadra = ''C'', squadra_norm = ''c'', punteggio_totale = 5\<rparr> \<in> set new \<and>
      (\<forall>r \<in> set new. squadra_norm r = ''c'' \<longrightarrow>
         giornata r = Max (giornata ` set ledger_AB) \<and> giornata r \<noteq> 2) \<and>
      (if \<exists>r \<in> set ledger_AB. giornata r = Max (giornata ` set ledger_AB) \<and> data_download r \<noteq> None
       then (\<exists>r \<in> set ledger_AB. giornata r = Max (giornata ` set ledger_AB) \<and> data_download r = Some t) \<and>
            (\<forall>r \<in> set ledger_AB. \<forall>d. giornata r = Max (giornata ` set ledger_AB) \<and>
               data_download r = Some d \<longrightarrow> d \<le> t)
       else t = 200))"
proof -
  have h1: "ledger_AB \<noteq> []" by (simp add: ledger_AB_def)
  have h2: "distinct (map fst snapshot_ABC)" by (simp add: snapshot_ABC_def)
  have h3: "fst (snd (update_storico ledger_AB snapshot_ABC 200 (1 / 1000000))) = Some 2"
    by (simp add: update_storico_ABC)
  have h4: "(''c'', \<lparr>obj_Squadra = ''C'', obj_Punti = 5\<rparr>) \<in> set snapshot_ABC"
    by (simp add: snapshot_ABC_def)
  have h5: "''c'' \<notin> squadra_norm ` set ledger_AB" by (simp add: ledger_AB_def)
  from update_storico_backfill[OF h1 h2 h3 h4 h5] h1 h2 h3 h4 h5 show ?thesis by simp
qed

text \<open>
  C4. The ledger given to \<^const>\<open>update_storico\<close> is an initial segment of the ledger it
  returns: every row is still there, in its place and with every field as it was.
\<close>

theorem update_storico_append_only:
  "prefix df_storico (fst (update_storico df_storico current_scores run_dt float_eps))"
  by (auto simp: update_storico_def Let_def prefix_concat_or_copy split: prod.splits)

theorem update_storico_append_only_witness:
  "prefix ledger_AB (fst (update_storico ledger_AB snapshot_ABC 200 (1 / 1000000))) \<and>
   length ledger_AB < length (fst (update_storico ledger_AB snapshot_ABC 200 (1 / 1000000)))"
  using update_storico_append_only[of ledger_AB snapshot_ABC 200 "1 / 1000000"]
  by (simp add: update_storico_ABC)

text \<open>
  C5, as the code has it. On an empty snapshot \<^const>\<open>update_storico\<close> returns the ledger
  as it was, and the three counts \<open>added_changed\<close>, \<open>added_new_prev\<close> and
  \<open>skipped_unchanged\<close> are 0. The entry \<open>no_change\<close> of the statistics is 1 when the
  ledger has rows and 0 when it has none; a round (1) is returned only in the second case.
\<close>

theorem update_storico_empty_snapshot:
  "update_storico df_storico [] run_dt float_eps =
     (df_storico, (if df_storico = [] then Some 1 else None),
      \<lparr>added_changed = 0, added_new_prev = 0, skipped_unchanged = 0,
       no_change = (if df_storico = [] then 0 else 1)\<rparr>)"
  by (simp add: update_storico_def)

theorem update_storico_empty_snapshot_witness:
  "update_storico ledger_AB [] 200 (1 / 1000000) =
     (ledger_AB, None,
      \<lparr>added_changed = 0, added_new_prev = 0, skipped_unchanged = 0, no_change = 1\<rparr>) \<and>
   update_storico [] [] 200 (1 / 1000000) =
     ([], Some 1,
      \<lparr>added_changed = 0, added_new_prev = 0, skipped_unchanged = 0, no_change = 0\<rparr>)"
  using update_storico_empty_snapshot[of ledger_AB 200 "1 / 1000000"]
    update_storico_empty_snapshot[of "[]" 200 "1 / 1000000"]
  by (simp add: ledger_AB_def)

text \<open>
  C5, as the claim states it, fails: on the ledger \<^const>\<open>ledger_AB\<close> and the empty
  snapshot the statistics are not all zero.
\<close>

theorem update_storico_empty_snapshot_counterexample:
  "snd (snd (update_storico ledger_AB [] 200 (1 / 1000000))) \<noteq>
     \<lparr>added_changed = 0, added_new_prev = 0, skipped_unchanged = 0, no_change = 0\<rparr>"
  by (simp add: update_storico_def ledger_AB_def)

text \<open>
  C10. The guard removes no candidate row: \<^const>\<open>update_storico\<close> and the reconciler
  without the guard return the same ledger, round and statistics, on every ledger and
  snapshot.
\<close>

theorem update_storico_filter_redundant:
  "update_storico df_storico current_scores run_dt float_eps =
   update_storico_nofilter df_storico current_scores run_dt float_eps"
proof (cases "df_storico = []")
  case True
  then show ?thesis by (simp add: update_storico_def update_storico_nofilter_def)
next
  case False
  obtain c u n where cl: "classify (df_last df_storico) float_eps current_scores = (c, u, n)"
    by (cases "classify (df_last df_storico) float_eps current_scores") auto
  show ?thesis
    using False
    by (simp add: update_storico_def update_storico_nofilter_def cl Let_def
        drop_existing_candidates[OF cl] drop_existing_new[OF classify_new_absent[OF cl]])
qed

theorem update_storico_filter_redundant_witness:
  "ledger_AB \<noteq> [] \<and>
   update_storico_nofilter ledger_AB snapshot_ABC 200 (1 / 1000000) =
     (ledger_AB @
        [\<lparr>giornata = 2, data_download = Some 200, Squadra = ''B'', squadra_norm = ''b'',
          punteggio_totale = 25\<rparr>,
         \<lparr>giornata = 1, data_download = Some 100, Squadra = ''C'', squadra_norm = ''c'',
          punteggio_totale = 5\<rparr>],
      Some 2,
      \<lparr>added_changed = 1, added_new_prev = 1, skipped_unchanged = 1, no_change = 0\<rparr>)"
proof -
  have "ledger_AB \<noteq> []" by (simp add: ledger_AB_def)
  then show ?thesis
    using update_storico_filter_redundant[of ledger_AB snapshot_ABC 200 "1 / 1000000"]
    by (simp add: update_storico_ABC)
qed

section \<open>The snapshot reducer: order of the observations\<close>








section \<open>The snapshot reducer on the examples\<close>

lemma norm_Pisa: "normalize_name ''Pisa'' = ''pisa''" by code_simp
lemma norm_PISA: "normalize_name ''PISA'' = ''pisa''" by code_simp





lemma norm_pisa: "normalize_name ''pisa'' = ''pisa''" by code_simp


lemma collect_PISA_Pisa_7:
  "collect_current_scores [obs_PISA, obs_Pisa, obs_pisa_7] =
     [(''pisa'', \<lparr>obj_Squadra = ''PISA'', obj_Punti = 10\<rparr>)]"
  by (simp add: collect_current_scores_def collect_step_def obs_Pisa_def obs_PISA_def
      obs_pisa_7_def norm_Pisa norm_PISA norm_pisa)


section \<open>The score parser\<close>

lemma replace_filter: "replace old [] s = filter (\<lambda>c. c \<noteq> old) s"
  by (induction s) (auto simp: replace_def)

lemma replace_map: "replace old [new] s = map (\<lambda>c. if c = old then new else c) s"
  by (induction s) (auto simp: replace_def)

lemma replace_chain:
  "replace CHR '','' ''.'' (replace CHR ''.'' [] (replace CHR '' '' [] (replace (CHR 0xA0) '' '' s)))
   = map (\<lambda>c. if c = CHR '','' then CHR ''.'' else c)
       (filter (\<lambda>c. c \<notin> {CHR ''.'', CHR '' '', CHR 0xA0}) s)"
  unfolding replace_filter replace_map
  by (induction s) auto

lemma float_of_string_1234_56: "float_of_string ''1234.56'' = Inr (123456 / 100)"
  by (simp add: float_of_string_def strip_def isspace_def isdigit_def digits_value_def Let_def)

lemma float_of_string_125: "float_of_string ''125'' = Inr 125"
  by (simp add: float_of_string_def strip_def isspace_def isdigit_def digits_value_def Let_def)

lemma float_of_string_12_5: "float_of_string ''12.5'' = Inr (25 / 2)"
  by (simp add: float_of_string_def strip_def isspace_def isdigit_def digits_value_def Let_def)

text \<open>
  C7, as the code has it. \<^const>\<open>parse_italian_number\<close> removes every point, every space
  and every no-break space of its input, whatever the format of the string, turns every
  comma into a point, and reads the result as a decimal number; \<^verbatim>\<open>1.234,56\<close> parses to
  1234.56.
\<close>

theorem parse_italian_number_dots:
  "parse_italian_number s =
     float_of_string (map (\<lambda>c. if c = CHR '','' then CHR ''.'' else c)
       (filter (\<lambda>c. c \<notin> {CHR ''.'', CHR '' '', CHR 0xA0}) s)) \<and>
   parse_italian_number ''1.234,56'' = Inr (123456 / 100)"
proof -
  have a: "\<And>s. parse_italian_number s =
     float_of_string (map (\<lambda>c. if c = CHR '','' then CHR ''.'' else c)
       (filter (\<lambda>c. c \<notin> {CHR ''.'', CHR '' '', CHR 0xA0}) s))"
    by (simp only: parse_italian_number_def Let_def replace_chain)
  have "parse_italian_number ''1.234,56'' = float_of_string ''1234.56''"
    unfolding a by simp
  then show ?thesis using a float_of_string_1234_56 by simp
qed

theorem parse_italian_number_dots_witness:
  "parse_italian_number ''1 234,5'' = float_of_string ''1234.5'' \<and>
   parse_italian_number ''1.234,56'' = Inr (123456 / 100)"
  using parse_italian_number_dots[of "''1 234,5''"] by simp

text \<open>
  C7, as the claim states it, fails: \<^verbatim>\<open>12.5\<close> is not in the format with a point for the
  thousands and a comma for the decimals, \<^verbatim>\<open>float\<close> reads it as 12.5, and the parser
  removes its point all the same and returns 125.
\<close>

theorem parse_italian_number_dots_counterexample:
  "parse_italian_number ''12.5'' = Inr 125 \<and> float_of_string ''12.5'' = Inr (25 / 2)"
proof -
  have "parse_italian_number ''12.5'' = float_of_string ''125''"
    by (simp add: parse_italian_number_def replace_def)
  then show ?thesis by (simp add: float_of_string_125 float_of_string_12_5)
qed

section \<open>The standings view\<close>









section \<open>The standings on the examples\<close>









lemma nargsort_desc_tie: "nargsort_desc [10, 10] = Some [0, 1]"
  by code_simp




text \<open>On two rows the quicksort is the insertion sort, and rows with equal totals keep
  their order.\<close>

lemma build_ultima_classifica_tie:
  "map cl_Squadra (build_ultima_classifica ledger_tie) = [''A'', ''B'']"
proof -
  have ne: "ledger_tie \<noteq> []" by (simp add: ledger_tie_def)
  have 1: "groupby_tail1 (sort_values_norm_giornata ledger_tie) = ledger_tie"
    by (simp add: sort_values_norm_giornata_def ledger_tie_def)
  have "map punteggio_totale ledger_tie = [10, 10]" by (simp add: ledger_tie_def)
  then have 2: "sort_values_punteggio_desc ledger_tie = ledger_tie"
    by (simp add: sort_values_punteggio_desc_def nargsort_desc_tie) (simp add: ledger_tie_def)
  have u: "[1 ..< length ledger_tie + 1] = [1, 2]" by (simp add: ledger_tie_def upt_rec)
  show ?thesis
    using ne unfolding build_ultima_classifica_def 1 2 Let_def u
    by (simp add: ledger_tie_def classifica_row_of_def)
qed

section \<open>The round-delta view\<close>

lemma insort_key_same_team:
  assumes "squadra_norm y = k" "\<forall>z \<in> set zs. squadra_norm z = k"
  shows "insort_key (\<lambda>r. (squadra_norm r, giornata r)) y zs = insort_key giornata y zs"
  using assms by (induction zs) auto

lemma sort_key_same_team:
  assumes "\<forall>y \<in> set ys. squadra_norm y = k"
  shows "sort_key (\<lambda>r. (squadra_norm r, giornata r)) ys = sort_key giornata ys"
  using assms
proof (induction ys)
  case Nil
  then show ?case by simp
next
  case (Cons y ys)
  then have ih: "sort_key (\<lambda>r. (squadra_norm r, giornata r)) ys = sort_key giornata ys" by simp
  have "\<forall>z \<in> set (sort_key giornata ys). squadra_norm z = k" using Cons.prems by simp
  then show ?case
    using Cons.prems by (simp add: ih insort_key_same_team[of y k])
qed

lemma filter_sort_values_team:
  "filter (\<lambda>r. squadra_norm r = k) (sort_values_norm_giornata df) = team_entries k df"
  unfolding sort_values_norm_giornata_def team_entries_def filter_sort
  by (rule sort_key_same_team[of _ k]) simp

lemma deltas_from_Some:
  "deltas_from (Some (punteggio_totale p)) es = team_deltas (p # es)"
proof (induction es arbitrary: p)
  case Nil
  then show ?case by (simp add: team_deltas_def)
next
  case (Cons e es)
  have "team_deltas (p # e # es) =
      \<lparr>pg_giornata = giornata e, pg_data_download = data_download e, pg_Squadra = Squadra e,
       punteggio_giornata = punteggio_totale e - punteggio_totale p\<rparr> # team_deltas (e # es)"
    by (simp add: team_deltas_def)
  then show ?case using Cons.IH[of e] by simp
qed

lemma deltas_from_None: "deltas_from None es = team_deltas es"
proof (cases es)
  case Nil
  then show ?thesis by (simp add: team_deltas_def)
next
  case (Cons e es')
  then show ?thesis by (simp add: deltas_from_Some)
qed

lemma delta_head:
  "mset (List.map_filter delta_of ((x, p) # zs)) =
   mset (deltas_from p [x]) + mset (List.map_filter delta_of zs)"
  by (cases p) (simp_all add: delta_of_def)

lemma deltas_from_Cons:
  "mset (deltas_from p (x # es)) =
   mset (deltas_from p [x]) + mset (deltas_from (Some (punteggio_totale x)) es)"
  by (cases p) simp_all

lemma groupby_shift1_teams:
  assumes "finite K" "squadra_norm ` set xs \<subseteq> K"
  shows "mset (List.map_filter delta_of (groupby_shift1 m xs)) =
         (\<Sum>k \<in> K. mset (deltas_from (m k) (filter (\<lambda>r. squadra_norm r = k) xs)))"
  using assms(2)
proof (induction xs arbitrary: m)
  case Nil
  then show ?case by simp
next
  case (Cons x xs)
  let ?kx = "squadra_norm x"
  let ?m' = "m(?kx \<mapsto> punteggio_totale x)"
  have kx: "?kx \<in> K" and sub: "squadra_norm ` set xs \<subseteq> K" using Cons.prems by auto
  have pt: "mset (deltas_from (m k) (filter (\<lambda>r. squadra_norm r = k) (x # xs))) =
      (if k = ?kx then mset (deltas_from (m ?kx) [x]) else {#}) +
      mset (deltas_from (?m' k) (filter (\<lambda>r. squadra_norm r = k) xs))" for k
  proof (cases "k = ?kx")
    case True
    then show ?thesis using deltas_from_Cons[of "m ?kx" x] by simp
  next
    case False
    then show ?thesis by auto
  qed
  have "(\<Sum>k \<in> K. mset (deltas_from (m k) (filter (\<lambda>r. squadra_norm r = k) (x # xs)))) =
      (\<Sum>k \<in> K. (if k = ?kx then mset (deltas_from (m ?kx) [x]) else {#})) +
      (\<Sum>k \<in> K. mset (deltas_from (?m' k) (filter (\<lambda>r. squadra_norm r = k) xs)))"
    by (simp only: pt sum.distrib)
  also have "(\<Sum>k \<in> K. (if k = ?kx then mset (deltas_from (m ?kx) [x]) else {#})) =
      mset (deltas_from (m ?kx) [x])"
    using assms(1) kx by simp
  also have "(\<Sum>k \<in> K. mset (deltas_from (?m' k) (filter (\<lambda>r. squadra_norm r = k) xs))) =
      mset (List.map_filter delta_of (groupby_shift1 ?m' xs))"
    by (rule Cons.IH[OF sub, of ?m', symmetric])
  finally show ?case
    by (simp only: groupby_shift1.simps delta_head)
qed

lemma build_punteggi_giornata_eq:
  "build_punteggi_giornata df =
     sort_key (\<lambda>d. (pg_giornata d, - punteggio_giornata d))
       (List.map_filter delta_of (groupby_shift1 Map.empty (sort_values_norm_giornata df)))"
proof (cases "df = []")
  case True
  then show ?thesis
    by (simp add: build_punteggi_giornata_def sort_values_norm_giornata_def)
next
  case False
  then show ?thesis
    by (simp add: build_punteggi_giornata_def Let_def)
qed

text \<open>
  C9. The rows of \<^const>\<open>build_punteggi_giornata\<close> are, counted with their
  multiplicities, the rows of \<^const>\<open>team_deltas\<close> of every team: the entries of the team
  in ascending order of round give one row for every entry but the first, with the entry's
  total minus the total of the entry before it. The rows are in ascending order of round
  and, inside a round, in descending order of that difference; an empty ledger gives none.
\<close>

theorem build_punteggi_giornata_deltas:
  "mset (build_punteggi_giornata df_storico) =
     (\<Sum>k \<in> squadra_norm ` set df_storico. mset (team_deltas (team_entries k df_storico))) \<and>
   sorted_wrt (\<lambda>a b. pg_giornata a < pg_giornata b \<or>
                 (pg_giornata a = pg_giornata b \<and> punteggio_giornata a \<ge> punteggio_giornata b))
     (build_punteggi_giornata df_storico) \<and>
   build_punteggi_giornata [] = []"
proof -
  let ?S = "sort_values_norm_giornata df_storico"
  let ?K = "squadra_norm ` set df_storico"
  have keys: "squadra_norm ` set ?S \<subseteq> ?K" by (simp add: sort_values_norm_giornata_def)
  have "mset (build_punteggi_giornata df_storico) =
      mset (List.map_filter delta_of (groupby_shift1 Map.empty ?S))"
    by (simp add: build_punteggi_giornata_eq)
  also have "\<dots> = (\<Sum>k \<in> ?K. mset (deltas_from None (filter (\<lambda>r. squadra_norm r = k) ?S)))"
    using groupby_shift1_teams[OF _ keys, of Map.empty] by simp
  also have "\<dots> = (\<Sum>k \<in> ?K. mset (team_deltas (team_entries k df_storico)))"
    by (simp only: filter_sort_values_team deltas_from_None)
  finally have 1: "mset (build_punteggi_giornata df_storico) =
     (\<Sum>k \<in> ?K. mset (team_deltas (team_entries k df_storico)))" .
  have "sorted (map (\<lambda>d. (pg_giornata d, - punteggio_giornata d)) (build_punteggi_giornata df_storico))"
    unfolding build_punteggi_giornata_eq by (rule sorted_sort_key)
  then have "sorted_wrt (\<lambda>a b. (pg_giornata a, - punteggio_giornata a) \<le> (pg_giornata b, - punteggio_giornata b))
      (build_punteggi_giornata df_storico)"
    by (simp only: sorted_map)
  then have 2: "sorted_wrt (\<lambda>a b. pg_giornata a < pg_giornata b \<or>
                 (pg_giornata a = pg_giornata b \<and> punteggio_giornata a \<ge> punteggio_giornata b))
     (build_punteggi_giornata df_storico)"
    by (rule sorted_wrt_mono_rel[rotated]) auto
  have 3: "build_punteggi_giornata [] = []" by (simp add: build_punteggi_giornata_def)
  show ?thesis using 1 2 3 by blast
qed

section \<open>The round deltas on the examples\<close>

lemma build_punteggi_giornata_rounds:
  "build_punteggi_giornata ledger_rounds =
     [\<lparr>pg_giornata = 2, pg_data_download = Some 200, pg_Squadra = ''B'', punteggio_giornata = 7\<rparr>,
      \<lparr>pg_giornata = 2, pg_data_download = Some 200, pg_Squadra = ''A'', punteggio_giornata = 5\<rparr>,
      \<lparr>pg_giornata = 3, pg_data_download = Some 300, pg_Squadra = ''A'', punteggio_giornata = 3\<rparr>]"
proof -
  have ne: "ledger_rounds \<noteq> []" by (simp add: ledger_rounds_def)
  have 1: "sort_values_norm_giornata ledger_rounds =
     [ledger_rounds ! 0, ledger_rounds ! 2, ledger_rounds ! 4, ledger_rounds ! 1, ledger_rounds ! 3]"
    by (simp add: sort_values_norm_giornata_def ledger_rounds_def)
  have 2: "groupby_shift1 Map.empty
       [ledger_rounds ! 0, ledger_rounds ! 2, ledger_rounds ! 4, ledger_rounds ! 1, ledger_rounds ! 3] =
     [(ledger_rounds ! 0, None), (ledger_rounds ! 2, Some 10), (ledger_rounds ! 4, Some 15),
      (ledger_rounds ! 1, None), (ledger_rounds ! 3, Some 20)]"
    by (simp add: ledger_rounds_def)
  show ?thesis
    using ne unfolding build_punteggi_giornata_def 1 2 Let_def
    by (simp add: ledger_rounds_def delta_of_def)
qed

theorem build_punteggi_giornata_deltas_witness:
  "mset [\<lparr>pg_giornata = 2, pg_data_download = Some 200, pg_Squadra = ''B'', punteggio_giornata = 7\<rparr>,
      \<lparr>pg_giornata = 2, pg_data_download = Some 200, pg_Squadra = ''A'', punteggio_giornata = 5\<rparr>,
      \<lparr>pg_giornata = 3, pg_data_download = Some 300, pg_Squadra = ''A'', punteggio_giornata = 3\<rparr>] =
     (\<Sum>k \<in> squadra_norm ` set ledger_rounds. mset (team_deltas (team_entries k ledger_rounds)))"
  using build_punteggi_giornata_deltas[of ledger_rounds]
  unfolding build_punteggi_giornata_rounds by simp

end
